theory Spec2Isabelle
  imports Complex_Main
begin

section \<open>Tensors\<close>

text \<open>
  The autoencoder of \<^verbatim>\<open>lightning_pod/core/module.py\<close> is embedded over the real numbers.
  A tensor of arbitrary rank is a strided window on a storage: its shape, its strides, the
  offset of its first element and the storage, a function from addresses to values. The
  element at index \<open>(i\<^sub>0, ..., i\<^sub>k)\<close> lives at the offset plus the sum of the
  \<open>i\<^sub>j\<close> times the \<open>j\<close>-th stride. After \<^verbatim>\<open>x.view(x.size(0), -1)\<close> every value the
  module handles is two-dimensional; such a batch is a \<open>mat\<close>: its column count and its
  list of rows. The column count is kept apart from the rows so that an empty batch still
  has a shape. Floating point is idealised: arithmetic, \<open>exp\<close> and \<open>ln\<close> are those of
  the reals.
\<close>

datatype error =
    IndexError
  | AmbiguousShape
  | InvalidShape
  | IncompatibleView
  | MatShapeMismatch
  | ValueError
  | TypeError
  | ImportError
  | OutsideModel

record tensor =
  shape :: "nat list"
  strides :: "nat list"
  storage_offset :: nat
  storage :: "nat \<Rightarrow> real"

definition wf_tensor :: "tensor \<Rightarrow> bool" where
  "wf_tensor t \<longleftrightarrow> length (strides t) = length (shape t)"

text \<open>The strides of a freshly allocated (contiguous) tensor: the last is 1, every other one
  is the next stride times the next size, a size 0 counting as 1.\<close>

fun contiguous_strides :: "nat list \<Rightarrow> nat list" where
  "contiguous_strides [] = []"
| "contiguous_strides [d] = [1]"
| "contiguous_strides (d # e # ds) =
     (let r = contiguous_strides (e # ds) in (max e 1 * hd r) # r)"

record mat =
  ncols :: nat
  rows :: "real list list"

definition wf_mat :: "mat \<Rightarrow> bool" where
  "wf_mat M \<longleftrightarrow> list_all (\<lambda>r. length r = ncols M) (rows M)"

definition mshape :: "mat \<Rightarrow> nat list" where
  "mshape M = [length (rows M), ncols M]"

text \<open>\<^verbatim>\<open>x.size(0)\<close>: the first dimension; a zero-dimensional tensor has none.\<close>

definition size0 :: "tensor \<Rightarrow> error + nat" where
  "size0 x = (case shape x of [] \<Rightarrow> Inl IndexError | n # ds \<Rightarrow> Inr n)"

text \<open>
  A view never copies: it needs strides for the new shape that address the same elements.
  The tensor library computes them as follows. The old dimensions are cut, from the last
  one backwards, into chunks within which the strides nest (a dimension of size 1 never
  ends a chunk); each chunk must be covered exactly by a run of new dimensions, which then
  get the strides of a contiguous layout on top of the chunk's innermost stride.
  \<open>fill_view\<close> is the inner loop: it hands new dimensions (given last first) to the
  current chunk while the chunk holds more elements than they cover, or while they have
  size 1. \<open>chunk_loop\<close> is the outer loop over the old dimensions, given last first as
  pairs of size and stride. A tensor without elements can take any shape.
\<close>

fun fill_view :: "nat \<Rightarrow> nat \<Rightarrow> nat \<Rightarrow> nat list \<Rightarrow> nat list \<Rightarrow> nat \<times> nat list \<times> nat list" where
  "fill_view base tensor_numel view_numel [] acc = (view_numel, [], acc)"
| "fill_view base tensor_numel view_numel (s # ss) acc =
     (if view_numel < tensor_numel \<or> s = 1
      then fill_view base tensor_numel (view_numel * s) ss (view_numel * base # acc)
      else (view_numel, s # ss, acc))"

fun chunk_loop :: "(nat \<times> nat) list \<Rightarrow> nat \<Rightarrow> nat \<Rightarrow> nat list \<Rightarrow> nat list \<Rightarrow> nat list option" where
  "chunk_loop [] base tensor_numel vs acc = (if vs = [] then Some acc else None)"
| "chunk_loop [(d, st)] base tensor_numel vs acc =
     (case fill_view base (tensor_numel * d) 1 vs acc of
        (view_numel, vs', acc') \<Rightarrow>
          if view_numel \<noteq> tensor_numel * d then None
          else if vs' = [] then Some acc' else None)"
| "chunk_loop ((d, st) # (d', st') # rest) base tensor_numel vs acc =
     (if d' \<noteq> 1 \<and> st' \<noteq> tensor_numel * d * base then
        (case fill_view base (tensor_numel * d) 1 vs acc of
           (view_numel, vs', acc') \<Rightarrow>
             if view_numel \<noteq> tensor_numel * d then None
             else chunk_loop ((d', st') # rest) st' 1 vs' acc')
      else chunk_loop ((d', st') # rest) base (tensor_numel * d) vs acc)"

definition compute_stride :: "nat list \<Rightarrow> nat list \<Rightarrow> nat list \<Rightarrow> nat list option" where
  "compute_stride oldshape oldstride newshape =
     (if oldshape = [] then Some (replicate (length newshape) 1)
      else if prod_list oldshape = 0 \<and> oldshape = newshape then Some oldstride
      else if prod_list oldshape = 0 then Some (contiguous_strides newshape)
      else chunk_loop (rev (zip oldshape oldstride)) (last oldstride) 1 (rev newshape) [])"

text \<open>\<open>nested t L\<close>: in the list \<open>L\<close> of sizes and strides, last dimension first, every
  stride is \<open>t\<close> times the sizes before it, as in a contiguous layout.\<close>

fun nested :: "nat \<Rightarrow> (nat \<times> nat) list \<Rightarrow> bool" where
  "nested t [] = True"
| "nested t ((d, st) # rest) = (st = t \<and> nested (t * d) rest)"

text \<open>
  \<^verbatim>\<open>x.view(n, -1)\<close>: the second dimension is inferred from the number of elements.
  The tensor library accepts the request when the element count equals \<open>n\<close> or is a
  multiple of a positive \<open>n\<close>, and then refuses \<open>n = 0\<close> because the inferred dimension
  would be ambiguous; any other request is an invalid shape. It then raises if the
  strides of \<open>x\<close> admit no strides for the new shape. The rows of the result are read
  from the storage through the new strides.
\<close>

definition address :: "nat \<Rightarrow> nat list \<Rightarrow> nat list \<Rightarrow> nat" where
  "address off idx ns = off + sum_list (map2 (\<lambda>i st. i * st) idx ns)"

definition view_infer :: "tensor \<Rightarrow> nat \<Rightarrow> error + mat" where
  "view_infer x n =
     (let numel = prod_list (shape x) in
      if numel = n \<or> (0 < n \<and> numel mod n = 0) then
        (if n = 0 then Inl AmbiguousShape
         else
           (case compute_stride (shape x) (strides x) [n, numel div n] of
              None \<Rightarrow> Inl IncompatibleView
            | Some ns \<Rightarrow>
                Inr \<lparr>ncols = numel div n,
                     rows = map (\<lambda>i. map (\<lambda>j. storage x (address (storage_offset x) [i, j] ns))
                                       [0..<numel div n])
                                [0..<n]\<rparr>))
      else Inl InvalidShape)"

section \<open>Layers\<close>

text \<open>
  The layers come from the tensor library; each is modelled by the computation the library
  documents for it, on two-dimensional batches, with the errors it raises as values. A
  call with a keyword argument the callee does not declare raises TypeError.

  \<^verbatim>\<open>nn.Linear(in_features, out_features, bias=True)\<close> owns a weight of shape
  (out_features, in_features) and a bias of length out_features. Their values are drawn at
  random by the constructor and moved by the optimizer, so they are left arbitrary here:
  the constructor takes them as functions of the index.
\<close>

record Linear =
  in_features :: nat
  out_features :: nat
  weight :: "real list list"
  bias :: "real list"

definition nn_Linear :: "nat \<Rightarrow> nat \<Rightarrow> (nat \<Rightarrow> nat \<Rightarrow> real) \<Rightarrow> (nat \<Rightarrow> real) \<Rightarrow> Linear" where
  "nn_Linear n_in n_out W c =
     \<lparr>in_features = n_in, out_features = n_out,
      weight = map (\<lambda>i. map (W i) [0..<n_in]) [0..<n_out],
      bias = map c [0..<n_out]\<rparr>"

definition dot :: "real list \<Rightarrow> real list \<Rightarrow> real" where
  "dot u v = sum_list (map2 (\<lambda>a b. a * b) u v)"

text \<open>The layer computes \<open>x W\<^sup>T + b\<close> and raises when the last dimension of \<open>x\<close> is not
  \<open>in_features\<close>.\<close>

definition Linear_forward :: "Linear \<Rightarrow> mat \<Rightarrow> error + mat" where
  "Linear_forward l x =
     (if ncols x \<noteq> in_features l then Inl MatShapeMismatch
      else Inr \<lparr>ncols = out_features l,
                rows = map (\<lambda>r. map2 (\<lambda>wr c. dot wr r + c) (weight l) (bias l)) (rows x)\<rparr>)"

text \<open>
  \<^verbatim>\<open>nn.PReLU\<close> declares the parameters \<^verbatim>\<open>num_parameters\<close>, \<^verbatim>\<open>init\<close>, \<^verbatim>\<open>device\<close> and
  \<^verbatim>\<open>dtype\<close>. Its constructor is given the keyword arguments of the call and the value of
  the single learned slope \<open>a\<close>; the layer computes \<open>max(0, v) + a * min(0, v)\<close>.
\<close>

definition PReLU_keywords :: "string list" where
  "PReLU_keywords = [''num_parameters'', ''init'', ''device'', ''dtype'']"

definition nn_PReLU :: "(string \<times> string) list \<Rightarrow> real \<Rightarrow> error + real" where
  "nn_PReLU kwargs a =
     (if list_all (\<lambda>k. k \<in> set PReLU_keywords) (map fst kwargs) then Inr a
      else Inl TypeError)"

definition PReLU_forward :: "real \<Rightarrow> mat \<Rightarrow> mat" where
  "PReLU_forward a x = x\<lparr>rows := map (map (\<lambda>v. max 0 v + a * min 0 v)) (rows x)\<rparr>"

text \<open>
  \<^verbatim>\<open>nn.Dropout(p)\<close> rejects a probability outside [0, 1]. A new module is in training
  mode. The layer returns its input unchanged when \<open>p = 0\<close>, when the module is in
  evaluation mode, or when the input is empty; with \<open>p = 1\<close> it returns zeros; otherwise
  it zeroes the elements the random draw does not keep and scales the others by
  \<open>1 / (1 - p)\<close>. The random draw is an explicit argument: \<open>keep i j\<close> tells whether
  element \<open>j\<close> of row \<open>i\<close> survives.
\<close>

record Dropout =
  drop_p :: real
  drop_training :: bool

type_synonym mask = "nat \<Rightarrow> nat \<Rightarrow> bool"

definition nn_Dropout :: "real \<Rightarrow> error + Dropout" where
  "nn_Dropout q =
     (if q < 0 \<or> 1 < q then Inl ValueError
      else Inr \<lparr>drop_p = q, drop_training = True\<rparr>)"

definition Dropout_forward :: "Dropout \<Rightarrow> mask \<Rightarrow> mat \<Rightarrow> mat" where
  "Dropout_forward d keep x =
     (if drop_p d = 0 \<or> \<not> drop_training d \<or> length (rows x) * ncols x = 0 then x
      else if drop_p d = 1 then x\<lparr>rows := map (map (\<lambda>v. v * 0)) (rows x)\<rparr>
      else x\<lparr>rows := map (\<lambda>(i, r). map (\<lambda>(j, v). if keep i j then v / (1 - drop_p d) else 0)
                                      (enumerate 0 r))
                         (enumerate 0 (rows x))\<rparr>)"

section \<open>Encoder and Decoder\<close>

text \<open>
  Both are \<^verbatim>\<open>nn.Sequential(Linear, PReLU, Dropout, Linear)\<close>; the encoder goes
  784 \<rightarrow> 64 \<rightarrow> 3 and the decoder 3 \<rightarrow> 64 \<rightarrow> 784. \<open>coder_params\<close> holds the current values
  of the trainable parameters of one of them. The constructors build the four layers in
  the order of the source and pass \<^verbatim>\<open>inplace=False\<close> to \<^verbatim>\<open>nn.PReLU\<close>.
\<close>

record coder_params =
  l1_weight :: "nat \<Rightarrow> nat \<Rightarrow> real"
  l1_bias :: "nat \<Rightarrow> real"
  prelu_a :: real
  l2_weight :: "nat \<Rightarrow> nat \<Rightarrow> real"
  l2_bias :: "nat \<Rightarrow> real"

record Encoder =
  enc_linear1 :: Linear
  enc_prelu :: real
  enc_dropout :: Dropout
  enc_linear2 :: Linear

record Decoder =
  dec_linear1 :: Linear
  dec_prelu :: real
  dec_dropout :: Dropout
  dec_linear2 :: Linear

definition Encoder_init :: "real \<Rightarrow> coder_params \<Rightarrow> error + Encoder" where
  "Encoder_init dropout \<theta> =
     (let l1 = nn_Linear (28 * 28) 64 (l1_weight \<theta>) (l1_bias \<theta>) in
      case nn_PReLU [(''inplace'', ''False'')] (prelu_a \<theta>) of
        Inl e \<Rightarrow> Inl e
      | Inr a \<Rightarrow>
     (case nn_Dropout dropout of
        Inl e \<Rightarrow> Inl e
      | Inr d \<Rightarrow>
          Inr \<lparr>enc_linear1 = l1,
               enc_prelu = a,
               enc_dropout = d,
               enc_linear2 = nn_Linear 64 3 (l2_weight \<theta>) (l2_bias \<theta>)\<rparr>))"

definition Encoder_forward :: "Encoder \<Rightarrow> mask \<Rightarrow> mat \<Rightarrow> error + mat" where
  "Encoder_forward e keep x =
     (case Linear_forward (enc_linear1 e) x of
        Inl err \<Rightarrow> Inl err
      | Inr h \<Rightarrow>
          Linear_forward (enc_linear2 e)
            (Dropout_forward (enc_dropout e) keep (PReLU_forward (enc_prelu e) h)))"

definition Decoder_init :: "real \<Rightarrow> coder_params \<Rightarrow> error + Decoder" where
  "Decoder_init dropout \<theta> =
     (let l1 = nn_Linear 3 64 (l1_weight \<theta>) (l1_bias \<theta>) in
      case nn_PReLU [(''inplace'', ''False'')] (prelu_a \<theta>) of
        Inl e \<Rightarrow> Inl e
      | Inr a \<Rightarrow>
     (case nn_Dropout dropout of
        Inl e \<Rightarrow> Inl e
      | Inr d \<Rightarrow>
          Inr \<lparr>dec_linear1 = l1,
               dec_prelu = a,
               dec_dropout = d,
               dec_linear2 = nn_Linear 64 (28 * 28) (l2_weight \<theta>) (l2_bias \<theta>)\<rparr>))"

definition Decoder_forward :: "Decoder \<Rightarrow> mask \<Rightarrow> mat \<Rightarrow> error + mat" where
  "Decoder_forward d keep x =
     (case Linear_forward (dec_linear1 d) x of
        Inl err \<Rightarrow> Inl err
      | Inr h \<Rightarrow>
          Linear_forward (dec_linear2 d)
            (Dropout_forward (dec_dropout d) keep (PReLU_forward (dec_prelu d) h)))"

section \<open>The module\<close>

text \<open>
  \<^verbatim>\<open>PodModule.__init__\<close> builds the encoder, then the decoder, with the same dropout
  probability, and keeps the optimizer class (by name), the learning rate and the
  accuracy task; \<^verbatim>\<open>save_hyperparameters\<close> records the constructor's arguments.
\<close>

record PodModule =
  encoder :: Encoder
  decoder :: Decoder
  optimizer :: string
  lr :: real
  accuracy_task :: string
  hparams :: "string \<times> real \<times> real \<times> string"

definition PodModule_init ::
  "string \<Rightarrow> real \<Rightarrow> real \<Rightarrow> string \<Rightarrow> coder_params \<Rightarrow> coder_params \<Rightarrow> error + PodModule" where
  "PodModule_init opt rate dropout task \<theta>e \<theta>d =
     (case Encoder_init dropout \<theta>e of
        Inl e \<Rightarrow> Inl e
      | Inr enc \<Rightarrow>
          (case Decoder_init dropout \<theta>d of
             Inl e \<Rightarrow> Inl e
           | Inr dec \<Rightarrow>
               Inr \<lparr>encoder = enc, decoder = dec, optimizer = opt, lr = rate,
                    accuracy_task = task, hparams = (opt, rate, dropout, task)\<rparr>))"

text \<open>The defaults of the constructor: Adam, \<open>lr = 1e-3\<close>, \<open>dropout = 0.5\<close>, "multilabel".\<close>

definition PodModule_default :: "coder_params \<Rightarrow> coder_params \<Rightarrow> error + PodModule" where
  "PodModule_default \<theta>e \<theta>d = PodModule_init ''Adam'' (1 / 1000) (1 / 2) ''multilabel'' \<theta>e \<theta>d"

text \<open>\<^verbatim>\<open>module.train(mode)\<close> and \<^verbatim>\<open>module.eval()\<close> set the mode of every submodule; the
  dropout layers are the only ones that read it.\<close>

definition PodModule_train :: "bool \<Rightarrow> PodModule \<Rightarrow> PodModule" where
  "PodModule_train b m =
     m\<lparr>encoder := (encoder m)\<lparr>enc_dropout := (enc_dropout (encoder m))\<lparr>drop_training := b\<rparr>\<rparr>,
       decoder := (decoder m)\<lparr>dec_dropout := (dec_dropout (decoder m))\<lparr>drop_training := b\<rparr>\<rparr>\<rparr>"

definition PodModule_eval :: "PodModule \<Rightarrow> PodModule" where
  "PodModule_eval m = PodModule_train False m"

text \<open>\<^verbatim>\<open>F.log_softmax(x_hat, dim=1)\<close> on a two-dimensional batch: every row minus the
  logarithm of the sum of its exponentials.\<close>

definition log_softmax :: "mat \<Rightarrow> mat" where
  "log_softmax x = x\<lparr>rows := map (\<lambda>r. map (\<lambda>v. v - ln (sum_list (map exp r))) r) (rows x)\<rparr>"

text \<open>
  \<^verbatim>\<open>F.mse_loss(x_hat, x)\<close>: the mean of the squared differences. The library broadcasts
  operands of unequal shape and yields a not-a-number for an empty operand; neither is
  modelled, both are reported as \<open>OutsideModel\<close>, and \<open>common_flow_locals_modelled\<close>
  below shows the module never gets there.
\<close>

definition mse_loss :: "mat \<Rightarrow> mat \<Rightarrow> error + real" where
  "mse_loss a b =
     (if mshape a \<noteq> mshape b \<or> length (rows a) * ncols a = 0 then Inl OutsideModel
      else Inr (sum_list (map2 (\<lambda>u v. (u - v)\<^sup>2) (concat (rows a)) (concat (rows b)))
                / real (length (rows a) * ncols a)))"

text \<open>One forward pass draws two dropout masks, the encoder's and the decoder's.\<close>

type_synonym draws = "mask \<times> mask"

definition forward :: "PodModule \<Rightarrow> draws \<Rightarrow> tensor \<Rightarrow> error + (mat \<times> mat)" where
  "forward m rnd x =
     (case size0 x of
        Inl e \<Rightarrow> Inl e
      | Inr n \<Rightarrow>
     (case view_infer x n of
        Inl e \<Rightarrow> Inl e
      | Inr xv \<Rightarrow>
     (case Encoder_forward (encoder m) (fst rnd) xv of
        Inl e \<Rightarrow> Inl e
      | Inr z \<Rightarrow>
     (case Decoder_forward (decoder m) (snd rnd) z of
        Inl e \<Rightarrow> Inl e
      | Inr x_hat \<Rightarrow>
          let y_hat = log_softmax x_hat in Inr (x_hat, y_hat)))))"

text \<open>
  \<^verbatim>\<open>accuracy\<close> and \<^verbatim>\<open>structural_similarity_index_measure\<close> belong to the metrics
  library. \<^verbatim>\<open>_common_flow\<close> is written against a record of the two functions, each of
  which may raise. The module passes its accuracy task under the keyword
  \<^verbatim>\<open>accuracy_task\<close>. The labels \<open>y\<close> are only handed to \<^verbatim>\<open>accuracy\<close>, so their type is
  left open.
\<close>

record 'y metrics =
  accuracy :: "mat \<Rightarrow> 'y \<Rightarrow> (string \<times> string) list \<Rightarrow> error + real"
  structural_similarity_index_measure :: "mat \<Rightarrow> mat \<Rightarrow> error + real"

text \<open>
  The library the module imports is \<open>torchmetrics\<close>. Its \<^verbatim>\<open>accuracy\<close> declares the
  parameters listed in \<open>accuracy_keywords\<close> after \<^verbatim>\<open>preds\<close> and \<^verbatim>\<open>target\<close>, requires
  \<^verbatim>\<open>task\<close>, and raises TypeError on any other call. Its
  \<^verbatim>\<open>structural_similarity_index_measure\<close> raises ValueError unless its operands have four
  or five dimensions. What the two functions compute on a call they accept is left open:
  it is the argument \<open>c\<close>.
\<close>

definition accuracy_keywords :: "string list" where
  "accuracy_keywords =
     [''task'', ''threshold'', ''num_classes'', ''num_labels'', ''average'',
      ''multidim_average'', ''top_k'', ''ignore_index'', ''validate_args'']"

definition torchmetrics :: "'y metrics \<Rightarrow> 'y metrics" where
  "torchmetrics c =
     \<lparr>accuracy = (\<lambda>preds target kwargs.
        if list_all (\<lambda>k. k \<in> set accuracy_keywords) (map fst kwargs) \<and>
           ''task'' \<in> set (map fst kwargs)
        then accuracy c preds target kwargs
        else Inl TypeError),
      structural_similarity_index_measure = (\<lambda>preds target.
        if length (mshape preds) \<in> {4, 5} \<and> length (mshape target) \<in> {4, 5}
        then structural_similarity_index_measure c preds target
        else Inl ValueError)\<rparr>"

type_synonym log = "(string \<times> real) list"

definition log_metric :: "log \<Rightarrow> string \<Rightarrow> real \<Rightarrow> log" where
  "log_metric lg name v = lg @ [(name, v)]"

text \<open>The first five statements of \<^verbatim>\<open>_common_flow\<close>: the values of \<open>x\<close>, \<open>x_hat\<close>,
  \<open>y_hat\<close> and \<open>loss\<close> once the loss has been computed.\<close>

definition common_flow_locals ::
  "PodModule \<Rightarrow> draws \<Rightarrow> tensor \<times> 'y \<Rightarrow> error + (mat \<times> mat \<times> mat \<times> real)" where
  "common_flow_locals m rnd batch =
     (case size0 (fst batch) of
        Inl e \<Rightarrow> Inl e
      | Inr n \<Rightarrow>
     (case view_infer (fst batch) n of
        Inl e \<Rightarrow> Inl e
      | Inr x \<Rightarrow>
     (case Encoder_forward (encoder m) (fst rnd) x of
        Inl e \<Rightarrow> Inl e
      | Inr z \<Rightarrow>
     (case Decoder_forward (decoder m) (snd rnd) z of
        Inl e \<Rightarrow> Inl e
      | Inr x_hat \<Rightarrow>
          let y_hat = log_softmax x_hat in
          (case mse_loss x_hat x of
             Inl e \<Rightarrow> Inl e
           | Inr loss \<Rightarrow> Inr (x, x_hat, y_hat, loss))))))"

text \<open>
  \<^verbatim>\<open>_common_flow(batch, stage)\<close>. The result is the returned value (\<open>None\<close> when the
  function falls off its end) and the log after the call.
\<close>

definition common_flow ::
  "'y metrics \<Rightarrow> PodModule \<Rightarrow> draws \<Rightarrow> tensor \<times> 'y \<Rightarrow> string \<Rightarrow> log \<Rightarrow> error + (real option \<times> log)" where
  "common_flow lib m rnd batch stage lg =
     (case common_flow_locals m rnd batch of
        Inl e \<Rightarrow> Inl e
      | Inr (x, x_hat, y_hat, loss) \<Rightarrow>
     (case (if stage \<in> set [''val'', ''test''] then
              (case accuracy lib y_hat (snd batch) [(''accuracy_task'', accuracy_task m)] of
                 Inl e \<Rightarrow> Inl e
               | Inr acc \<Rightarrow>
              (case structural_similarity_index_measure lib x_hat x of
                 Inl e \<Rightarrow> Inl e
               | Inr ssim \<Rightarrow>
                   Inr (log_metric
                         (log_metric (log_metric lg (stage @ ''_ssim '') ssim)
                            (stage @ ''_acc'') acc)
                         (stage @ ''_loss'') loss)))
            else Inr lg) of
        Inl e \<Rightarrow> Inl e
      | Inr lg1 \<Rightarrow>
          if stage = ''training'' then Inr (Some loss, log_metric lg1 (stage @ ''_loss'') loss)
          else Inr (None, lg1)))"

text \<open>The three steps call \<^verbatim>\<open>_common_flow\<close> and have no \<^verbatim>\<open>return\<close> statement.\<close>

definition training_step ::
  "'y metrics \<Rightarrow> PodModule \<Rightarrow> draws \<Rightarrow> tensor \<times> 'y \<Rightarrow> log \<Rightarrow> error + (real option \<times> log)" where
  "training_step lib m rnd batch lg =
     (case common_flow lib m rnd batch ''training'' lg of
        Inl e \<Rightarrow> Inl e
      | Inr (r, lg') \<Rightarrow> Inr (None, lg'))"

definition test_step ::
  "'y metrics \<Rightarrow> PodModule \<Rightarrow> draws \<Rightarrow> tensor \<times> 'y \<Rightarrow> log \<Rightarrow> error + (real option \<times> log)" where
  "test_step lib m rnd batch lg =
     (case common_flow lib m rnd batch ''test'' lg of
        Inl e \<Rightarrow> Inl e
      | Inr (r, lg') \<Rightarrow> Inr (None, lg'))"

definition validation_step ::
  "'y metrics \<Rightarrow> PodModule \<Rightarrow> draws \<Rightarrow> tensor \<times> 'y \<Rightarrow> log \<Rightarrow> error + (real option \<times> log)" where
  "validation_step lib m rnd batch lg =
     (case common_flow lib m rnd batch ''val'' lg of
        Inl e \<Rightarrow> Inl e
      | Inr (r, lg') \<Rightarrow> Inr (None, lg'))"

section \<open>The driver\<close>

text \<open>
  What \<^verbatim>\<open>examples/hydra/trainer.py\<close> contributes to the claims is two names: the class it
  imports from \<^verbatim>\<open>lightning_pod.core.module\<close> and the metric its early-stopping callback
  monitors. \<open>module_namespace\<close> lists the names bound at the top level of
  \<^verbatim>\<open>module.py\<close>, in order: its imports and its three classes.
\<close>

definition module_namespace :: "string list" where
  "module_namespace =
     [''Optional'', ''L'', ''F'', ''nn'', ''optim'', ''accuracy'',
      ''structural_similarity_index_measure'', ''Encoder'', ''Decoder'', ''PodModule'']"

text \<open>\<^verbatim>\<open>from module import name\<close> raises ImportError for a name the module does not bind.\<close>

definition import_from :: "string list \<Rightarrow> string \<Rightarrow> error + string" where
  "import_from ns name = (if name \<in> set ns then Inr name else Inl ImportError)"

definition trainer_model_import :: "error + string" where
  "trainer_model_import = import_from module_namespace ''LitModel''"

record EarlyStopping =
  monitor :: string
  mode :: string

definition early_stopping :: EarlyStopping where
  "early_stopping = \<lparr>monitor = ''loss'', mode = ''min''\<rparr>"

text \<open>
  Concrete values to run the definitions on: all-zero parameters, two dropout draws, the
  contiguous all-zero tensor of a given shape, and \<open>accepting_metrics\<close>, a metrics
  library that accepts every call and returns 1. It is not the library the module imports
  (that one is \<open>torchmetrics\<close>); it shows what the steps do once both metric calls return.
\<close>

definition zero_params :: coder_params where
  "zero_params =
     \<lparr>l1_weight = (\<lambda>i j. 0), l1_bias = (\<lambda>i. 0), prelu_a = 1 / 4,
      l2_weight = (\<lambda>i j. 0), l2_bias = (\<lambda>i. 0)\<rparr>"

definition keep_all :: draws where
  "keep_all = ((\<lambda>i j. True), (\<lambda>i j. True))"

definition keep_none :: draws where
  "keep_none = ((\<lambda>i j. False), (\<lambda>i j. False))"

definition zeros :: "nat list \<Rightarrow> tensor" where
  "zeros s = \<lparr>shape = s, strides = contiguous_strides s, storage_offset = 0, storage = (\<lambda>a. 0)\<rparr>"

definition accepting_metrics :: "nat list metrics" where
  "accepting_metrics =
     \<lparr>accuracy = (\<lambda>y_hat y kw. Inr 1),
      structural_similarity_index_measure = (\<lambda>x_hat x. Inr 1)\<rparr>"

text \<open>\<^verbatim>\<open>predict_step\<close> unpacks the batch and returns the forward pass of its input.\<close>

definition predict_step :: "PodModule \<Rightarrow> draws \<Rightarrow> tensor \<times> 'y \<Rightarrow> error + (mat \<times> mat)" where
  "predict_step m rnd batch = forward m rnd (fst batch)"

text \<open>
  The layer sizes the source declares. The values of the parameters play no part in them,
  and training does not change them.
\<close>

definition Encoder_inv :: "Encoder \<Rightarrow> bool" where
  "Encoder_inv e \<longleftrightarrow>
     in_features (enc_linear1 e) = 784 \<and> out_features (enc_linear1 e) = 64 \<and>
     in_features (enc_linear2 e) = 64 \<and> out_features (enc_linear2 e) = 3 \<and>
     length (weight (enc_linear2 e)) = 3 \<and> length (bias (enc_linear2 e)) = 3"

definition Decoder_inv :: "Decoder \<Rightarrow> bool" where
  "Decoder_inv e \<longleftrightarrow>
     in_features (dec_linear1 e) = 3 \<and> out_features (dec_linear1 e) = 64 \<and>
     in_features (dec_linear2 e) = 64 \<and> out_features (dec_linear2 e) = 784 \<and>
     length (weight (dec_linear2 e)) = 784 \<and> length (bias (dec_linear2 e)) = 784"

definition PodModule_inv :: "PodModule \<Rightarrow> bool" where
  "PodModule_inv m \<longleftrightarrow> Encoder_inv (encoder m) \<and> Decoder_inv (decoder m)"

text \<open>
  The constructors never return (C4 below), so the modules the definitions are run on are
  written out field by field: the layers the source declares, all parameters zero, in
  training mode; \<open>zero_module\<close> with the default hyperparameters, \<open>nodrop_module\<close> with
  dropout probability 0. \<open>transposed_batch\<close> is a batch of shape (2, 28, 28) whose last
  two dimensions are swapped in memory, as \<^verbatim>\<open>x.transpose(1, 2)\<close> leaves them.
\<close>

definition zero_mat :: "nat \<Rightarrow> nat \<Rightarrow> mat" where
  "zero_mat n d = \<lparr>ncols = d, rows = replicate n (replicate d 0)\<rparr>"

definition zero_encoder :: "real \<Rightarrow> Encoder" where
  "zero_encoder q =
     \<lparr>enc_linear1 = nn_Linear (28 * 28) 64 (\<lambda>i j. 0) (\<lambda>i. 0),
      enc_prelu = 1 / 4,
      enc_dropout = \<lparr>drop_p = q, drop_training = True\<rparr>,
      enc_linear2 = nn_Linear 64 3 (\<lambda>i j. 0) (\<lambda>i. 0)\<rparr>"

definition zero_decoder :: "real \<Rightarrow> Decoder" where
  "zero_decoder q =
     \<lparr>dec_linear1 = nn_Linear 3 64 (\<lambda>i j. 0) (\<lambda>i. 0),
      dec_prelu = 1 / 4,
      dec_dropout = \<lparr>drop_p = q, drop_training = True\<rparr>,
      dec_linear2 = nn_Linear 64 (28 * 28) (\<lambda>i j. 0) (\<lambda>i. 0)\<rparr>"

definition zero_module :: PodModule where
  "zero_module =
     \<lparr>encoder = zero_encoder (1 / 2), decoder = zero_decoder (1 / 2), optimizer = ''Adam'',
      lr = 1 / 1000, accuracy_task = ''multilabel'',
      hparams = (''Adam'', 1 / 1000, 1 / 2, ''multilabel'')\<rparr>"

definition nodrop_module :: PodModule where
  "nodrop_module =
     \<lparr>encoder = zero_encoder 0, decoder = zero_decoder 0, optimizer = ''Adam'',
      lr = 1 / 1000, accuracy_task = ''multilabel'',
      hparams = (''Adam'', 1 / 1000, 0, ''multilabel'')\<rparr>"

definition transposed_batch :: tensor where
  "transposed_batch =
     \<lparr>shape = [2, 28, 28], strides = [784, 1, 28], storage_offset = 0, storage = (\<lambda>a. 0)\<rparr>"

section \<open>Layers, view and forward pass\<close>

text \<open>
  The constructors raise on the keyword \<^verbatim>\<open>inplace\<close>. The lemmas on the forward pass are
  therefore stated for any module object with the layer sizes the source declares
  (\<open>PodModule_inv\<close>), not for the result of a constructor.
\<close>

lemma Linear_forward_Inr_iff:
  "(\<exists>y. Linear_forward l x = Inr y) \<longleftrightarrow> ncols x = in_features l"
  by (simp add: Linear_forward_def)

lemma nn_Linear_sel [simp]:
  "in_features (nn_Linear a b W c) = a"
  "out_features (nn_Linear a b W c) = b"
  "length (weight (nn_Linear a b W c)) = b"
  "length (bias (nn_Linear a b W c)) = b"
  by (simp_all add: nn_Linear_def)

lemma PReLU_forward_shape [simp]:
  "ncols (PReLU_forward a x) = ncols x"
  "length (rows (PReLU_forward a x)) = length (rows x)"
  by (simp_all add: PReLU_forward_def)

lemma Dropout_forward_shape [simp]:
  "ncols (Dropout_forward d k x) = ncols x"
  "length (rows (Dropout_forward d k x)) = length (rows x)"
  by (simp_all add: Dropout_forward_def)

lemma Dropout_forward_eval:
  "drop_p d = 0 \<or> \<not> drop_training d \<Longrightarrow> Dropout_forward d k x = x"
  by (auto simp: Dropout_forward_def)

lemma nn_PReLU_inplace: "nn_PReLU [(''inplace'', ''False'')] a = Inl TypeError"
  by (simp add: nn_PReLU_def PReLU_keywords_def)

lemma Encoder_init_TypeError: "Encoder_init q \<theta> = Inl TypeError"
  by (simp add: Encoder_init_def nn_PReLU_inplace)

lemma Decoder_init_TypeError: "Decoder_init q \<theta> = Inl TypeError"
  by (simp add: Decoder_init_def nn_PReLU_inplace)

lemma PodModule_init_TypeError: "PodModule_init opt rate q task \<theta>e \<theta>d = Inl TypeError"
  by (simp add: PodModule_init_def Encoder_init_TypeError)

lemma Encoder_forward_Inr_iff:
  "Encoder_inv e \<Longrightarrow> (\<exists>z. Encoder_forward e k x = Inr z) \<longleftrightarrow> ncols x = 784"
  by (auto simp: Encoder_inv_def Encoder_forward_def Linear_forward_def split: sum.splits)

lemma Encoder_forward_shape:
  "Encoder_inv e \<Longrightarrow> Encoder_forward e k x = Inr z \<Longrightarrow>
   mshape z = [length (rows x), 3] \<and> wf_mat z"
  by (auto simp: Encoder_inv_def Encoder_forward_def Linear_forward_def mshape_def wf_mat_def list_all_iff
      split: sum.splits if_splits)

lemma Decoder_forward_Inr_iff:
  "Decoder_inv e \<Longrightarrow> (\<exists>z. Decoder_forward e k x = Inr z) \<longleftrightarrow> ncols x = 3"
  by (auto simp: Decoder_inv_def Decoder_forward_def Linear_forward_def split: sum.splits)

lemma Decoder_forward_shape:
  "Decoder_inv e \<Longrightarrow> Decoder_forward e k x = Inr z \<Longrightarrow>
   mshape z = [length (rows x), 784] \<and> wf_mat z"
  by (auto simp: Decoder_inv_def Decoder_forward_def Linear_forward_def mshape_def wf_mat_def list_all_iff
      split: sum.splits if_splits)

lemma Encoder_forward_mask:
  "drop_p (enc_dropout e) = 0 \<or> \<not> drop_training (enc_dropout e) \<Longrightarrow>
   Encoder_forward e k x = Encoder_forward e k' x"
  by (simp add: Encoder_forward_def Dropout_forward_eval split: sum.splits)

lemma Decoder_forward_mask:
  "drop_p (dec_dropout d) = 0 \<or> \<not> drop_training (dec_dropout d) \<Longrightarrow>
   Decoder_forward d k x = Decoder_forward d k' x"
  by (simp add: Decoder_forward_def Dropout_forward_eval split: sum.splits)

lemma view_infer_batch:
  "shape x = n # ds \<Longrightarrow> 0 < n \<Longrightarrow>
   view_infer x n =
     (case compute_stride (n # ds) (strides x) [n, prod_list ds] of
        None \<Rightarrow> Inl IncompatibleView
      | Some ns \<Rightarrow>
          Inr \<lparr>ncols = prod_list ds,
               rows = map (\<lambda>i. map (\<lambda>j. storage x (address (storage_offset x) [i, j] ns))
                                 [0..<prod_list ds])
                          [0..<n]\<rparr>)"
  by (simp add: view_infer_def Let_def split: option.splits)

lemma view_infer_Inr:
  assumes "view_infer x n = Inr xv" and "shape x = n # ds"
  shows "0 < n \<and> length (rows xv) = n \<and> ncols xv = prod_list ds \<and> wf_mat xv"
proof -
  from assms have n: "0 < n"
    by (cases "n = 0") (auto simp: view_infer_def Let_def split: if_splits)
  with assms show ?thesis
    by (auto simp: view_infer_batch wf_mat_def list_all_iff split: option.splits)
qed

lemma view_infer_Inr_iff:
  assumes "shape x = n # ds" and "0 < n"
  shows "(\<exists>xv. view_infer x n = Inr xv) \<longleftrightarrow>
         compute_stride (shape x) (strides x) [n, prod_list ds] \<noteq> None"
  using assms by (auto simp: view_infer_batch split: option.splits)

lemma forward_view:
  assumes "shape x = n # ds"
  shows "forward m rnd x =
     (case view_infer x n of
        Inl e \<Rightarrow> Inl e
      | Inr xv \<Rightarrow>
     (case Encoder_forward (encoder m) (fst rnd) xv of
        Inl e \<Rightarrow> Inl e
      | Inr z \<Rightarrow>
     (case Decoder_forward (decoder m) (snd rnd) z of
        Inl e \<Rightarrow> Inl e
      | Inr x_hat \<Rightarrow> Inr (x_hat, log_softmax x_hat))))"
  using assms by (simp add: forward_def size0_def Let_def split: sum.splits)

lemma forward_Inr_iff:
  assumes "PodModule_inv m" and "shape x = n # ds"
  shows "(\<exists>out. forward m rnd x = Inr out) \<longleftrightarrow>
         (\<exists>xv. view_infer x n = Inr xv) \<and> prod_list ds = 784"
proof
  assume "\<exists>out. forward m rnd x = Inr out"
  then obtain xv z where xv: "view_infer x n = Inr xv"
    and z: "Encoder_forward (encoder m) (fst rnd) xv = Inr z"
    by (auto simp: forward_view [OF assms(2)] split: sum.splits)
  from z assms(1) have "ncols xv = 784"
    using Encoder_forward_Inr_iff [of "encoder m" "fst rnd" xv]
    by (auto simp: PodModule_inv_def)
  with view_infer_Inr [OF xv assms(2)] xv
  show "(\<exists>xv. view_infer x n = Inr xv) \<and> prod_list ds = 784" by auto
next
  assume "(\<exists>xv. view_infer x n = Inr xv) \<and> prod_list ds = 784"
  then obtain xv where xv: "view_infer x n = Inr xv" and d: "prod_list ds = 784" by auto
  from view_infer_Inr [OF xv assms(2)] d have "ncols xv = 784" by simp
  with assms(1) obtain z where z: "Encoder_forward (encoder m) (fst rnd) xv = Inr z"
    using Encoder_forward_Inr_iff [of "encoder m" "fst rnd" xv]
    by (auto simp: PodModule_inv_def)
  with assms(1) have "ncols z = 3"
    using Encoder_forward_shape [of "encoder m" "fst rnd" xv z]
    by (simp add: PodModule_inv_def mshape_def)
  with assms(1) obtain y where "Decoder_forward (decoder m) (snd rnd) z = Inr y"
    using Decoder_forward_Inr_iff [of "decoder m" "snd rnd" z]
    by (auto simp: PodModule_inv_def)
  with xv z show "\<exists>out. forward m rnd x = Inr out"
    by (simp add: forward_view [OF assms(2)])
qed

lemma forward_shapes:
  assumes "PodModule_inv m" and "shape x = n # ds" and "forward m rnd x = Inr (x_hat, y_hat)"
  shows "mshape x_hat = [n, 784] \<and> wf_mat x_hat \<and> y_hat = log_softmax x_hat \<and> 0 < n"
proof -
  from assms(3) obtain xv z where xv: "view_infer x n = Inr xv"
    and z: "Encoder_forward (encoder m) (fst rnd) xv = Inr z"
    and y: "Decoder_forward (decoder m) (snd rnd) z = Inr x_hat"
    and yh: "y_hat = log_softmax x_hat"
    by (auto simp: forward_view [OF assms(2)] split: sum.splits)
  from assms(1) z view_infer_Inr [OF xv assms(2)] have "length (rows z) = n" and "0 < n"
    using Encoder_forward_shape [of "encoder m" "fst rnd" xv z]
    by (simp_all add: PodModule_inv_def mshape_def)
  with assms(1) y yh show ?thesis
    using Decoder_forward_shape [of "decoder m" "snd rnd" z x_hat]
    by (simp add: PodModule_inv_def)
qed

lemma forward_modelled: "forward m rnd x \<noteq> Inl OutsideModel"
  by (auto simp: forward_def size0_def view_infer_def Encoder_forward_def Decoder_forward_def
      Linear_forward_def Let_def split: sum.splits list.splits if_splits option.splits)

lemma log_softmax_shape [simp]: "mshape (log_softmax x) = mshape x"
  by (simp add: log_softmax_def mshape_def)

lemma log_softmax_wf [simp]: "wf_mat (log_softmax x) = wf_mat x"
  by (simp add: log_softmax_def wf_mat_def list_all_iff)

lemma sum_list_exp_pos: "r \<noteq> [] \<Longrightarrow> 0 < sum_list (map exp (r :: real list))"
proof (induction r)
  case Nil
  then show ?case by simp
next
  case (Cons a r)
  have "0 \<le> sum_list (map exp r)" by (rule sum_list_nonneg) auto
  moreover have "0 < exp a" by simp
  ultimately show ?case by (simp add: add_pos_nonneg)
qed

lemma sum_list_divide_const:
  "sum_list (map (\<lambda>v. f v / (c :: real)) r) = sum_list (map f r) / c"
  by (induction r) (simp_all add: add_divide_distrib)

lemma log_softmax_row_normalised:
  fixes r :: "real list"
  assumes "r \<noteq> []"
  shows "sum_list (map exp (map (\<lambda>v. v - ln (sum_list (map exp r))) r)) = 1"
proof -
  let ?S = "sum_list (map exp r)"
  have pos: "0 < ?S" using assms by (rule sum_list_exp_pos)
  have "sum_list (map exp (map (\<lambda>v. v - ln ?S) r)) = sum_list (map (\<lambda>v. exp v / ?S) r)"
    using pos by (simp add: o_def exp_diff)
  also have "\<dots> = ?S / ?S" by (rule sum_list_divide_const)
  also have "\<dots> = 1" using pos by simp
  finally show ?thesis .
qed

lemma log_softmax_rows_normalised:
  assumes "wf_mat x" "0 < ncols x"
  shows "list_all (\<lambda>r. sum_list (map exp r) = 1) (rows (log_softmax x))"
proof -
  have "sum_list (map exp (map (\<lambda>v. v - ln (sum_list (map exp r))) r)) = 1"
    if "r \<in> set (rows x)" for r
  proof -
    from that assms have "r \<noteq> []" by (auto simp: wf_mat_def list_all_iff)
    then show ?thesis by (rule log_softmax_row_normalised)
  qed
  then show ?thesis
    by (simp add: log_softmax_def list_all_iff del: map_map)
qed

lemma mse_loss_nonneg: "mse_loss a b = Inr l \<Longrightarrow> 0 \<le> l"
  by (auto simp: mse_loss_def split: if_splits intro!: divide_nonneg_nonneg sum_list_nonneg)

lemma common_flow_locals_batch:
  assumes "PodModule_inv m" and "shape x = n # ds" and "prod_list ds = 784"
    and "view_infer x n = Inr xv"
  shows "\<exists>x_hat loss.
           forward m rnd x = Inr (x_hat, log_softmax x_hat) \<and>
           mse_loss x_hat xv = Inr loss \<and>
           common_flow_locals m rnd (x, y) = Inr (xv, x_hat, log_softmax x_hat, loss)"
proof -
  from assms obtain out where out: "forward m rnd x = Inr out"
    using forward_Inr_iff [of m x n ds rnd] by auto
  obtain x_hat y_hat where o: "out = (x_hat, y_hat)" by (cases out)
  from forward_shapes [OF assms(1,2) out [unfolded o]]
  have sh: "mshape x_hat = [n, 784]" and yh: "y_hat = log_softmax x_hat" and n: "0 < n"
    by auto
  from view_infer_Inr [OF assms(4,2)] assms(3)
  have "mshape xv = [n, 784]" by (simp add: mshape_def)
  with sh n obtain loss where l: "mse_loss x_hat xv = Inr loss"
    by (auto simp: mse_loss_def mshape_def)
  from out o yh assms(4) have
    "\<exists>z. Encoder_forward (encoder m) (fst rnd) xv = Inr z \<and>
         Decoder_forward (decoder m) (snd rnd) z = Inr x_hat"
    by (auto simp: forward_view [OF assms(2)] split: sum.splits)
  with l assms(2,4) have
    "common_flow_locals m rnd (x, y) = Inr (xv, x_hat, log_softmax x_hat, loss)"
    by (auto simp: common_flow_locals_def size0_def Let_def)
  with out o yh l show ?thesis by auto
qed

lemma forward_common_flow_locals:
  assumes "PodModule_inv m"
  shows "forward m rnd x =
         map_sum id (\<lambda>(xv, x_hat, y_hat, loss). (x_hat, y_hat)) (common_flow_locals m rnd (x, y))"
proof (cases "shape x")
  case Nil
  then show ?thesis by (simp add: forward_def common_flow_locals_def size0_def)
next
  case (Cons n ds)
  show ?thesis
  proof (cases "view_infer x n")
    case (Inl e)
    with Cons show ?thesis by (simp add: forward_def common_flow_locals_def size0_def)
  next
    case (Inr xv)
    show ?thesis
    proof (cases "prod_list ds = 784")
      case True
      from common_flow_locals_batch [OF assms Cons True Inr, of rnd y] show ?thesis by auto
    next
      case False
      with view_infer_Inr [OF Inr Cons] have "ncols xv \<noteq> 784" by simp
      with assms obtain e where "Encoder_forward (encoder m) (fst rnd) xv = Inl e"
        using Encoder_forward_Inr_iff [of "encoder m" "fst rnd" xv]
        by (cases "Encoder_forward (encoder m) (fst rnd) xv") (auto simp: PodModule_inv_def)
      with Cons Inr show ?thesis
        by (simp add: forward_def common_flow_locals_def size0_def)
    qed
  qed
qed

lemma common_flow_locals_modelled:
  assumes "PodModule_inv m"
  shows "common_flow_locals m rnd batch \<noteq> Inl OutsideModel"
proof
  assume "common_flow_locals m rnd batch = Inl OutsideModel"
  then have "common_flow_locals m rnd (fst batch, snd batch) = Inl OutsideModel" by simp
  with forward_common_flow_locals [OF assms, of rnd "fst batch" "snd batch"]
  have "forward m rnd (fst batch) = Inl OutsideModel" by simp
  with forward_modelled show False by blast
qed

section \<open>Contiguous tensors admit the flattening view\<close>

lemma nested_snoc:
  "nested t (L @ [(d, st)]) \<longleftrightarrow> nested t L \<and> st = t * prod_list (map fst L)"
  by (induction L arbitrary: t) (auto simp: mult.assoc)

lemma chunk_loop_nested:
  assumes "nested t L" and "L \<noteq> []"
  shows "chunk_loop L 1 t vs acc =
     (case fill_view 1 (t * prod_list (map fst L)) 1 vs acc of
        (view_numel, vs', acc') \<Rightarrow>
          if view_numel \<noteq> t * prod_list (map fst L) then None
          else if vs' = [] then Some acc' else None)"
  using assms
proof (induction L arbitrary: t)
  case Nil
  then show ?case by simp
next
  case (Cons a L)
  obtain d st where a: "a = (d, st)" by (cases a)
  show ?case
  proof (cases L)
    case Nil
    with a show ?thesis by simp
  next
    case (Cons b L')
    obtain d' st' where b: "b = (d', st')" by (cases b)
    from Cons.prems a Cons b have st': "st' = t * d" and n: "nested (t * d) L" by simp_all
    from Cons.IH [OF n] Cons have
      "chunk_loop L 1 (t * d) vs acc =
        (case fill_view 1 (t * d * prod_list (map fst L)) 1 vs acc of
           (view_numel, vs', acc') \<Rightarrow>
             if view_numel \<noteq> t * d * prod_list (map fst L) then None
             else if vs' = [] then Some acc' else None)"
      by simp
    with a Cons b st' show ?thesis by (simp add: mult.assoc)
  qed
qed

lemma length_contiguous_strides [simp]: "length (contiguous_strides s) = length s"
  by (induction s rule: contiguous_strides.induct) (simp_all add: Let_def)

lemma hd_contiguous_strides:
  "s \<noteq> [] \<Longrightarrow> list_all (\<lambda>d. 0 < d) (tl s) \<Longrightarrow> hd (contiguous_strides s) = prod_list (tl s)"
proof (induction s rule: contiguous_strides.induct)
  case 1
  then show ?case by simp
next
  case (2 d)
  then show ?case by simp
next
  case (3 d e ds)
  then have "hd (contiguous_strides (e # ds)) = prod_list ds" by simp
  moreover from 3 have "max e 1 = e" by simp
  ultimately show ?case by (simp add: Let_def)
qed

lemma tl_contiguous_strides:
  "tl (contiguous_strides (d # s)) = contiguous_strides s"
  by (cases s) (simp_all add: Let_def)

lemma last_contiguous_strides: "s \<noteq> [] \<Longrightarrow> last (contiguous_strides s) = 1"
proof (induction s rule: contiguous_strides.induct)
  case 1
  then show ?case by simp
next
  case (2 d)
  show ?case by simp
next
  case (3 d e ds)
  have "contiguous_strides (e # ds) \<noteq> []"
  proof
    assume a: "contiguous_strides (e # ds) = []"
    have "length (contiguous_strides (e # ds)) = Suc (length ds)" by simp
    from this [unfolded a] show False by simp
  qed
  with 3 show ?case by (simp add: Let_def)
qed

lemma nested_contiguous:
  "list_all (\<lambda>d. 0 < d) s \<Longrightarrow> nested 1 (rev (zip s (contiguous_strides s)))"
proof (induction s)
  case Nil
  then show ?case by simp
next
  case (Cons d s)
  then have ih: "nested 1 (rev (zip s (contiguous_strides s)))" by simp
  have cs: "contiguous_strides (d # s) = hd (contiguous_strides (d # s)) # contiguous_strides s"
    using tl_contiguous_strides [of d s] length_contiguous_strides [of "d # s"]
    by (cases "contiguous_strides (d # s)") simp_all
  have h: "hd (contiguous_strides (d # s)) = prod_list s"
    using hd_contiguous_strides [of "d # s"] Cons.prems by simp
  have "rev (zip (d # s) (contiguous_strides (d # s))) =
        rev (zip s (contiguous_strides s)) @ [(d, prod_list s)]"
    by (subst cs) (simp add: h)
  moreover have "map fst (rev (zip s (contiguous_strides s))) = rev s"
    by (simp add: rev_map [symmetric])
  ultimately show ?case using ih by (simp add: nested_snoc)
qed

lemma fill_view_flatten:
  assumes "0 < n" and "0 < k"
  shows "fill_view 1 (n * k) 1 [k, n] [] = (n * k, [], [k, 1])"
proof -
  have one: "1 < n * k \<or> k = 1"
  proof (cases "k = 1")
    case True
    then show ?thesis by simp
  next
    case False
    with assms have "1 < k" by simp
    moreover from assms have "k \<le> n * k" by simp
    ultimately have "1 < n * k" by (rule less_le_trans)
    then show ?thesis ..
  qed
  have two: "k < n * k \<or> n = 1" using assms by (cases "n = 1") auto
  from one two show ?thesis by (simp add: mult.commute)
qed

lemma contiguous_viewable:
  assumes "0 < n"
  shows "compute_stride (n # ds) (contiguous_strides (n # ds)) [n, prod_list ds] \<noteq> None"
proof (cases "prod_list ds = 0")
  case True
  then show ?thesis by (simp add: compute_stride_def)
next
  case False
  then have pos: "list_all (\<lambda>d. 0 < d) (n # ds)"
    using assms by (auto simp: list_all_iff prod_list_zero_iff intro!: Nat.gr0I)
  let ?L = "rev (zip (n # ds) (contiguous_strides (n # ds)))"
  have ne: "?L \<noteq> []"
    by (cases "contiguous_strides (n # ds)") (use length_contiguous_strides [of "n # ds"] in auto)
  have fst: "prod_list (map fst ?L) = n * prod_list ds"
    by (simp add: rev_map [symmetric] del: zip_Cons_Cons contiguous_strides.simps)
  from False assms have k: "0 < prod_list ds" by simp
  have "chunk_loop ?L 1 1 [prod_list ds, n] [] = Some [prod_list ds, 1]"
    unfolding chunk_loop_nested [OF nested_contiguous [OF pos] ne] fst
    using fill_view_flatten [OF assms k] by simp
  with False assms show ?thesis
    by (simp add: compute_stride_def last_contiguous_strides
        del: contiguous_strides.simps)
qed

section \<open>The common flow, the metrics library and the all-zero batch\<close>

text \<open>With all parameters zero every layer maps a zero batch to a zero batch, whatever the
  dropout draw, so the definitions can be evaluated on a full-size input.\<close>

lemma common_flow_training:
  assumes "common_flow_locals m rnd batch = Inr (xv, x_hat, y_hat, loss)"
  shows "common_flow lib m rnd batch ''training'' lg =
           Inr (Some loss, lg @ [(''training_loss'', loss)])"
  using assms by (simp add: common_flow_def log_metric_def)

lemma common_flow_eval:
  assumes "common_flow_locals m rnd batch = Inr (xv, x_hat, y_hat, loss)"
    and "stage = ''val'' \<or> stage = ''test''"
    and "accuracy lib y_hat (snd batch) [(''accuracy_task'', accuracy_task m)] = Inr acc"
    and "structural_similarity_index_measure lib x_hat xv = Inr s"
  shows "common_flow lib m rnd batch stage lg =
           Inr (None, lg @ [(stage @ ''_ssim '', s), (stage @ ''_acc'', acc),
                            (stage @ ''_loss'', loss)])"
  using assms by (auto simp: common_flow_def log_metric_def)

lemma common_flow_eval_Inr:
  assumes "common_flow lib m rnd batch stage lg = Inr (r, lg')"
    and "stage = ''val'' \<or> stage = ''test''"
  shows "\<exists>s acc loss. r = None \<and>
           lg' = lg @ [(stage @ ''_ssim '', s), (stage @ ''_acc'', acc),
                       (stage @ ''_loss'', loss)]"
  using assms by (auto simp: common_flow_def log_metric_def split: sum.splits prod.splits)

lemma common_flow_keys:
  assumes "common_flow lib m rnd batch stage lg = Inr (r, lg')"
  shows "\<exists>ks. map fst lg' = map fst lg @ map (\<lambda>k. stage @ k) ks \<and>
              set ks \<subseteq> {''_ssim '', ''_acc'', ''_loss''}"
proof (cases "stage = ''val'' \<or> stage = ''test''")
  case True
  from common_flow_eval_Inr [OF assms True] show ?thesis
    by (auto intro!: exI [of _ "[''_ssim '', ''_acc'', ''_loss'']"])
next
  case False
  then show ?thesis using assms
    by (auto simp: common_flow_def log_metric_def split: sum.splits prod.splits if_splits
        intro: exI [of _ "[''_loss'']"] exI [of _ "[]"])
qed

lemma suffix_key_not_loss: "k \<in> {''_ssim '', ''_acc'', ''_loss''} \<Longrightarrow> stage @ k \<noteq> ''loss''"
proof
  assume k: "k \<in> {''_ssim '', ''_acc'', ''_loss''}" and e: "stage @ k = ''loss''"
  from e have "length (stage @ k) = length ''loss''" by (rule arg_cong)
  then have l: "length stage + length k = 4" by simp
  from k l have "k = ''_acc''" and "stage = []" by auto
  with e show False by simp
qed

lemma torchmetrics_accuracy_keyword:
  "accuracy (torchmetrics c) preds target [(''accuracy_task'', t)] = Inl TypeError"
  by (simp add: torchmetrics_def accuracy_keywords_def)

lemma torchmetrics_ssim_rank:
  "structural_similarity_index_measure (torchmetrics c) preds target = Inl ValueError"
  by (simp add: torchmetrics_def mshape_def)

lemma common_flow_torchmetrics:
  assumes "stage = ''val'' \<or> stage = ''test''"
  shows "\<exists>e. common_flow (torchmetrics c) m rnd batch stage lg = Inl e"
  using assms
  by (auto simp: common_flow_def torchmetrics_accuracy_keyword split: sum.splits prod.splits)

lemma common_flow_torchmetrics_TypeError:
  assumes "stage = ''val'' \<or> stage = ''test''"
    and "common_flow_locals m rnd batch = Inr (xv, x_hat, y_hat, loss)"
  shows "common_flow (torchmetrics c) m rnd batch stage lg = Inl TypeError"
  using assms
  by (auto simp: common_flow_def torchmetrics_accuracy_keyword)

lemma dot_zero: "dot (replicate k 0) v = 0"
proof (induction k arbitrary: v)
  case 0
  show ?case by (simp add: dot_def)
next
  case (Suc k)
  then show ?case by (cases v) (simp_all add: dot_def)
qed

lemma zero_weight: "map (\<lambda>i. map ((\<lambda>i j. 0 :: real) i) [0..<a]) [0..<b] = replicate b (replicate a 0)"
  by (simp add: map_replicate_const)

lemma zero_bias: "map (\<lambda>i. 0 :: real) [0..<b] = replicate b 0"
  by (simp add: map_replicate_const)

lemma Linear_forward_zero:
  "ncols x = a \<Longrightarrow>
   Linear_forward (nn_Linear a b (\<lambda>i j. 0) (\<lambda>i. 0)) x = Inr (zero_mat (length (rows x)) b)"
  by (simp add: Linear_forward_def nn_Linear_def zero_weight zero_bias dot_zero
      zero_mat_def map_replicate_const)

lemma PReLU_forward_zero: "PReLU_forward a (zero_mat n d) = zero_mat n d"
  by (simp add: PReLU_forward_def zero_mat_def)

lemma dropout_row_zero:
  "map (\<lambda>(j, v). if k j then v / q else 0) (enumerate s (replicate c (0 :: real))) = replicate c 0"
  by (induction c arbitrary: s) simp_all

lemma dropout_rows_zero:
  "map (\<lambda>(i, r). map (\<lambda>(j, v). if k i j then v / q else 0) (enumerate 0 r))
       (enumerate s (replicate n (replicate c (0 :: real)))) = replicate n (replicate c 0)"
  by (induction n arbitrary: s) (simp_all add: dropout_row_zero)

lemma Dropout_forward_zero: "Dropout_forward d k (zero_mat n c) = zero_mat n c"
  by (simp add: Dropout_forward_def zero_mat_def dropout_rows_zero)

lemma zero_mat_sel [simp]:
  "ncols (zero_mat n d) = d" "length (rows (zero_mat n d)) = n"
  by (simp_all add: zero_mat_def)

lemma zero_encoder_forward:
  "Encoder_forward (zero_encoder q) k (zero_mat n 784) = Inr (zero_mat n 3)"
  by (simp add: Encoder_forward_def zero_encoder_def Linear_forward_zero PReLU_forward_zero
      Dropout_forward_zero)

lemma zero_decoder_forward:
  "Decoder_forward (zero_decoder q) k (zero_mat n 3) = Inr (zero_mat n 784)"
  by (simp add: Decoder_forward_def zero_decoder_def Linear_forward_zero PReLU_forward_zero
      Dropout_forward_zero)

lemma zero_encoder_inv: "Encoder_inv (zero_encoder q)"
  by (simp add: Encoder_inv_def zero_encoder_def)

lemma zero_decoder_inv: "Decoder_inv (zero_decoder q)"
  by (simp add: Decoder_inv_def zero_decoder_def)

lemma zero_module_inv: "PodModule_inv zero_module"
  by (simp add: PodModule_inv_def zero_module_def zero_encoder_inv zero_decoder_inv)

lemma nodrop_module_inv: "PodModule_inv nodrop_module"
  by (simp add: PodModule_inv_def nodrop_module_def zero_encoder_inv zero_decoder_inv)

lemma zeros_strides: "strides (zeros [2, 28, 28]) = [784, 28, 1]"
  by (simp add: zeros_def)

lemma zeros_compute_stride:
  "compute_stride [2, 28, 28] [784, 28, 1] [2, 784] = Some [784, 1]"
  by (simp add: compute_stride_def)

lemma zeros_view: "view_infer (zeros [2, 28, 28]) 2 = Inr (zero_mat 2 784)"
proof -
  have s: "shape (zeros [2, 28, 28]) = 2 # [28, 28]" by (simp add: zeros_def)
  have p: "prod_list [28, 28] = (784 :: nat)" by simp
  have st: "storage (zeros [2, 28, 28]) = (\<lambda>a. 0)" by (simp add: zeros_def)
  have n: "(0 :: nat) < 2" by simp
  show ?thesis
    unfolding view_infer_batch [OF s n] zeros_strides p zeros_compute_stride st
    by (simp add: zero_mat_def map_replicate_const)
qed

lemma zero_module_forward:
  "forward zero_module rnd (zeros [2, 28, 28]) = Inr (zero_mat 2 784, log_softmax (zero_mat 2 784))"
proof -
  have s: "shape (zeros [2, 28, 28]) = 2 # [28, 28]" by (simp add: zeros_def)
  show ?thesis
    unfolding forward_view [OF s] zeros_view
    by (simp add: zero_module_def zero_encoder_forward zero_decoder_forward)
qed

lemma sq_diff_self: "sum_list (map2 (\<lambda>u v. (u - v)\<^sup>2) xs xs) = (0 :: real)"
  by (induction xs) simp_all

lemma mse_loss_self: "0 < length (rows a) * ncols a \<Longrightarrow> mse_loss a a = Inr 0"
  by (simp add: mse_loss_def sq_diff_self)

lemma zero_module_locals:
  "common_flow_locals zero_module rnd (zeros [2, 28, 28], y) =
     Inr (zero_mat 2 784, zero_mat 2 784, log_softmax (zero_mat 2 784), 0)"
proof -
  have sh: "shape (zeros [2, 28, 28]) = 2 # [28, 28]" by (simp add: zeros_def)
  have pr: "prod_list [28, 28] = (784 :: nat)" by simp
  from common_flow_locals_batch [OF zero_module_inv sh pr zeros_view, of rnd y]
  obtain x_hat loss where
    f: "forward zero_module rnd (zeros [2, 28, 28]) = Inr (x_hat, log_softmax x_hat)"
    and m: "mse_loss x_hat (zero_mat 2 784) = Inr loss"
    and l: "common_flow_locals zero_module rnd (zeros [2, 28, 28], y) =
              Inr (zero_mat 2 784, x_hat, log_softmax x_hat, loss)"
    by auto
  from f have x: "x_hat = zero_mat 2 784" unfolding zero_module_forward by simp
  with m have "loss = 0" by (simp add: mse_loss_self)
  with l x show ?thesis by simp
qed

lemma zero_module_eval_flow:
  "common_flow accepting_metrics zero_module rnd (zeros [2, 28, 28], y) ''val'' [] =
     Inr (None, [(''val_ssim '', 1), (''val_acc'', 1), (''val_loss'', 0)])"
  using common_flow_eval [OF zero_module_locals [of rnd y], where stage = "''val''"
      and lib = accepting_metrics and acc = 1 and s = 1 and lg = "[]"]
  by (simp add: accepting_metrics_def)

lemma training_step_at_zeros:
  "common_flow lib zero_module rnd (zeros [2, 28, 28], y) ''training'' [] =
     Inr (Some 0, [(''training_loss'', 0)]) \<and>
   training_step lib zero_module rnd (zeros [2, 28, 28], y) [] =
     Inr (None, [(''training_loss'', 0)])"
  using common_flow_training [OF zero_module_locals, of lib rnd y "[]"]
  by (simp add: training_step_def)

lemma validation_step_at_zeros:
  "validation_step (torchmetrics c) zero_module rnd (zeros [2, 28, 28], y) lg = Inl TypeError"
  using common_flow_torchmetrics_TypeError [OF _ zero_module_locals, of "''val''" c rnd y lg]
  by (simp add: validation_step_def)

lemma empty_batch_view: "view_infer (zeros [0, 784]) 0 = Inl AmbiguousShape"
  by (simp add: view_infer_def zeros_def)

lemma transposed_batch_view: "view_infer transposed_batch 2 = Inl IncompatibleView"
proof -
  have s: "shape transposed_batch = 2 # [28, 28]" by (simp add: transposed_batch_def)
  have c: "compute_stride [2, 28, 28] [784, 1, 28] [2, 784] = None"
    by (simp add: compute_stride_def)
  have st: "strides transposed_batch = [784, 1, 28]" by (simp add: transposed_batch_def)
  have p: "prod_list [28, 28] = (784 :: nat)" by simp
  have n: "(0 :: nat) < 2" by simp
  show ?thesis
    unfolding view_infer_batch [OF s n] st p c by simp
qed

lemma layer_stack_shapes:
  assumes "Encoder_inv enc" and "Decoder_inv dec" and "mshape x = [N, 784]"
  shows "\<exists>z y. Encoder_forward enc k1 x = Inr z \<and> mshape z = [N, 3] \<and> wf_mat z \<and>
           Decoder_forward dec k2 z = Inr y \<and> mshape y = [N, 784] \<and> wf_mat y"
proof -
  from assms(3) have "ncols x = 784" and n: "length (rows x) = N" by (simp_all add: mshape_def)
  then obtain z where z: "Encoder_forward enc k1 x = Inr z"
    using Encoder_forward_Inr_iff [OF assms(1), of k1 x] by auto
  with Encoder_forward_shape [OF assms(1) z] n have zs: "mshape z = [N, 3]" "wf_mat z"
    by simp_all
  then have "ncols z = 3" and nz: "length (rows z) = N" by (simp_all add: mshape_def)
  then obtain y where y: "Decoder_forward dec k2 z = Inr y"
    using Decoder_forward_Inr_iff [OF assms(2), of k2 z] by auto
  with Decoder_forward_shape [OF assms(2) y] nz z zs show ?thesis by simp
qed

lemma forward_rows_normalised:
  assumes "PodModule_inv m" and "shape x = n # ds" and "forward m rnd x = Inr (x_hat, y_hat)"
  shows "mshape x_hat = [n, 784] \<and> mshape y_hat = [n, 784] \<and>
         list_all (\<lambda>r. length r = 784 \<and> sum_list (map exp r) = 1) (rows y_hat)"
proof -
  from forward_shapes [OF assms]
  have s: "mshape x_hat = [n, 784]" and w: "wf_mat x_hat" and y: "y_hat = log_softmax x_hat"
    by simp_all
  from s have c: "ncols x_hat = 784" by (simp add: mshape_def)
  from log_softmax_rows_normalised [OF w] c
  have "list_all (\<lambda>r. sum_list (map exp r) = 1) (rows y_hat)" by (simp add: y)
  moreover from w c have "list_all (\<lambda>r. length r = 784) (rows y_hat)"
    by (simp add: y wf_mat_def log_softmax_def list_all_iff)
  ultimately have "list_all (\<lambda>r. length r = 784 \<and> sum_list (map exp r) = 1) (rows y_hat)"
    by (simp add: list_all_iff)
  with s y show ?thesis by simp
qed

section \<open>The claims\<close>

text \<open>
  C1. The training step is meant to return the mean-squared-error loss as the optimization
  target. For any module with the declared layer sizes and any batch of samples of 784
  scalars each on which the view succeeds, \<^verbatim>\<open>_common_flow\<close> called with stage
  "training" does return a non-negative loss and records it as \<open>training_loss\<close>;
  \<^verbatim>\<open>training_step\<close> records the same metric but returns \<open>None\<close>, because it calls
  \<^verbatim>\<open>_common_flow\<close> without returning its result.
\<close>

theorem training_step_discards_loss:
  assumes "PodModule_inv m" and "shape x = N # ds" and "prod_list ds = 784"
    and "view_infer x N = Inr xv"
  shows "\<exists>loss. 0 \<le> loss \<and>
           common_flow lib m rnd (x, y) ''training'' lg =
             Inr (Some loss, lg @ [(''training_loss'', loss)]) \<and>
           training_step lib m rnd (x, y) lg = Inr (None, lg @ [(''training_loss'', loss)])"
proof -
  from common_flow_locals_batch [OF assms, of rnd y]
  obtain x_hat loss where
    l: "common_flow_locals m rnd (x, y) = Inr (xv, x_hat, log_softmax x_hat, loss)"
    and m: "mse_loss x_hat xv = Inr loss" by blast
  from m have "0 \<le> loss" by (rule mse_loss_nonneg)
  with common_flow_training [OF l, of lib lg] show ?thesis
    by (auto simp: training_step_def)
qed

theorem training_step_discards_loss_witness:
  "PodModule_inv zero_module \<and> shape (zeros [2, 28, 28]) = 2 # [28, 28] \<and>
   prod_list [28, 28] = (784 :: nat) \<and>
   view_infer (zeros [2, 28, 28]) 2 = Inr (zero_mat 2 784) \<and>
   (\<exists>loss. 0 \<le> loss \<and>
      common_flow (torchmetrics accepting_metrics) zero_module keep_all
          (zeros [2, 28, 28], [3, 7]) ''training'' [] =
        Inr (Some loss, [] @ [(''training_loss'', loss)]) \<and>
      training_step (torchmetrics accepting_metrics) zero_module keep_all
          (zeros [2, 28, 28], [3, 7]) [] =
        Inr (None, [] @ [(''training_loss'', loss)]))"
proof -
  have s: "shape (zeros [2, 28, 28]) = 2 # [28, 28]" by (simp add: zeros_def)
  have p: "prod_list [28, 28] = (784 :: nat)" by simp
  from training_step_discards_loss [OF zero_module_inv s p zeros_view,
      of "torchmetrics accepting_metrics" keep_all "[3, 7]" "[]"]
    zero_module_inv s p zeros_view
  show ?thesis by blast
qed

text \<open>
  C2. The validation step and the test step are meant to record three metrics. With the
  metrics library the module imports they never record anything: for every module, batch
  and log both steps raise. Where the forward path succeeds the error is the TypeError of
  \<^verbatim>\<open>accuracy\<close>, which is called with the keyword \<^verbatim>\<open>accuracy_task\<close> it does not declare
  and without its required \<^verbatim>\<open>task\<close>.
\<close>

theorem eval_steps_raise:
  "\<exists>e1 e2. validation_step (torchmetrics c) m rnd batch lg = Inl e1 \<and>
           test_step (torchmetrics c) m rnd batch lg = Inl e2"
proof -
  obtain e1 where "common_flow (torchmetrics c) m rnd batch ''val'' lg = Inl e1"
    using common_flow_torchmetrics [of "''val''" c m rnd batch lg] by auto
  moreover obtain e2 where "common_flow (torchmetrics c) m rnd batch ''test'' lg = Inl e2"
    using common_flow_torchmetrics [of "''test''" c m rnd batch lg] by auto
  ultimately show ?thesis by (simp add: validation_step_def test_step_def)
qed

theorem eval_steps_raise_witness:
  "(\<exists>e1 e2.
      validation_step (torchmetrics accepting_metrics) zero_module keep_all
          (zeros [2, 28, 28], [3, 7]) [] = Inl e1 \<and>
      test_step (torchmetrics accepting_metrics) zero_module keep_all
          (zeros [2, 28, 28], [3, 7]) [] = Inl e2) \<and>
   validation_step (torchmetrics accepting_metrics) zero_module keep_all
       (zeros [2, 28, 28], [3, 7]) [] = Inl TypeError"
  using eval_steps_raise [of accepting_metrics zero_module keep_all "(zeros [2, 28, 28], [3, 7])" "[]"]
    validation_step_at_zeros [of accepting_metrics keep_all "[3, 7]" "[]"]
  by (rule conjI)

text \<open>
  C3. The driver's early-stopping callback monitors the metric named "loss", minimized.
  Whatever the stage, the batch and the metric functions, no call of \<^verbatim>\<open>_common_flow\<close>
  records a metric of that name: every recorded key is the stage followed by \<open>_ssim \<close>,
  \<open>_acc\<close> or \<open>_loss\<close>.
\<close>

theorem monitored_metric_never_recorded:
  assumes "common_flow lib m rnd batch stage [] = Inr (r, lg)"
  shows "monitor early_stopping = ''loss'' \<and> mode early_stopping = ''min'' \<and>
         monitor early_stopping \<notin> set (map fst lg)"
proof -
  from common_flow_keys [OF assms] obtain ks where
    ks: "map fst lg = map (\<lambda>k. stage @ k) ks" "set ks \<subseteq> {''_ssim '', ''_acc'', ''_loss''}"
    by auto
  have "''loss'' \<notin> set (map (\<lambda>k. stage @ k) ks)"
  proof
    assume "''loss'' \<in> set (map (\<lambda>k. stage @ k) ks)"
    then obtain k where "k \<in> set ks" "stage @ k = ''loss''" by auto
    with ks(2) suffix_key_not_loss [of k stage] show False by auto
  qed
  with ks(1) show ?thesis by (simp add: early_stopping_def)
qed

theorem monitored_metric_never_recorded_witness:
  "common_flow (torchmetrics accepting_metrics) zero_module keep_all
       (zeros [2, 28, 28], [3, 7]) ''training'' [] =
     Inr (Some 0, [(''training_loss'', 0)]) \<and>
   monitor early_stopping = ''loss'' \<and> mode early_stopping = ''min'' \<and>
   monitor early_stopping \<notin> set (map fst [(''training_loss'', 0 :: real)])"
proof -
  have c: "common_flow (torchmetrics accepting_metrics) zero_module keep_all
       (zeros [2, 28, 28], [3, 7]) ''training'' [] =
     Inr (Some 0, [(''training_loss'', 0)])"
    using training_step_at_zeros [of "torchmetrics accepting_metrics" keep_all "[3, 7]"]
    by simp
  from monitored_metric_never_recorded [OF c] c show ?thesis by blast
qed

text \<open>
  C4. The encoder is meant to map a batch of shape (N, 784) to shape (N, 3) and the decoder
  a batch of shape (N, 3) to shape (N, 784). Neither can be built: for every dropout
  probability and all parameter values both constructors raise TypeError, because they
  pass \<^verbatim>\<open>inplace=False\<close> to \<^verbatim>\<open>nn.PReLU\<close>. (The layer stack the source declares would have
  these shapes: \<open>layer_stack_shapes\<close>.)
\<close>

theorem encoder_decoder_constructors_raise:
  "Encoder_init q \<theta>e = Inl TypeError \<and> Decoder_init q \<theta>d = Inl TypeError"
  by (simp add: Encoder_init_TypeError Decoder_init_TypeError)

theorem encoder_decoder_constructors_raise_witness:
  "Encoder_init (1 / 2) zero_params = Inl TypeError \<and>
   Decoder_init (1 / 2) zero_params = Inl TypeError"
  using encoder_decoder_constructors_raise [of "1 / 2" zero_params zero_params] .

text \<open>
  C5. The driver imports the name \<open>LitModel\<close> from the core module, which binds
  \<open>PodModule\<close> and no \<open>LitModel\<close>: the import raises, so the name the driver constructs
  its model from does not resolve to the module's wrapper class.
\<close>

theorem driver_model_import_fails:
  "trainer_model_import = Inl ImportError \<and>
   import_from module_namespace ''PodModule'' = Inr ''PodModule'' \<and>
   ''LitModel'' \<notin> set module_namespace"
  by (simp add: trainer_model_import_def import_from_def module_namespace_def)

text \<open>
  C6. For any module whose two dropout layers have probability 0 and which is put in
  evaluation mode, two forward passes on the same input give the same result, whatever
  the two random draws.
\<close>

theorem forward_deterministic_in_eval:
  assumes "drop_p (enc_dropout (encoder m)) = 0" and "drop_p (dec_dropout (decoder m)) = 0"
  shows "forward (PodModule_eval m) rnd1 x = forward (PodModule_eval m) rnd2 x"
proof -
  let ?m = "PodModule_eval m"
  have "\<not> drop_training (enc_dropout (encoder ?m))"
    and "\<not> drop_training (dec_dropout (decoder ?m))"
    by (simp_all add: PodModule_eval_def PodModule_train_def)
  then have e: "Encoder_forward (encoder ?m) (fst rnd1) xv = Encoder_forward (encoder ?m) (fst rnd2) xv"
    and d: "Decoder_forward (decoder ?m) (snd rnd1) z = Decoder_forward (decoder ?m) (snd rnd2) z"
    for xv z
    by (simp_all add: Encoder_forward_mask [of _ "fst rnd1" _ "fst rnd2"]
        Decoder_forward_mask [of _ "snd rnd1" _ "snd rnd2"])
  show ?thesis unfolding forward_def e d ..
qed

theorem forward_deterministic_in_eval_witness:
  "drop_p (enc_dropout (encoder nodrop_module)) = 0 \<and>
   drop_p (dec_dropout (decoder nodrop_module)) = 0 \<and>
   forward (PodModule_eval nodrop_module) keep_all (zeros [2, 28, 28]) =
   forward (PodModule_eval nodrop_module) keep_none (zeros [2, 28, 28])"
proof -
  have e: "drop_p (enc_dropout (encoder nodrop_module)) = 0"
    by (simp add: nodrop_module_def zero_encoder_def)
  have d: "drop_p (dec_dropout (decoder nodrop_module)) = 0"
    by (simp add: nodrop_module_def zero_decoder_def)
  from forward_deterministic_in_eval [OF e d, of keep_all "zeros [2, 28, 28]" keep_none] e d
  show ?thesis by blast
qed

text \<open>
  C7. The end-to-end scenario builds the module with the default hyperparameters. That
  constructor raises TypeError for all parameter values (the encoder's constructor does),
  so there is no forward pass and no \<open>x_hat\<close> or \<open>y_hat\<close>. (On a module object with the
  declared layer sizes the shapes and the normalisation of the rows of \<open>y_hat\<close> would
  hold over the reals: \<open>forward_rows_normalised\<close>.)
\<close>

theorem default_module_constructor_raises:
  "PodModule_default \<theta>e \<theta>d = Inl TypeError"
  by (simp add: PodModule_default_def PodModule_init_TypeError)

theorem default_module_constructor_raises_witness:
  "PodModule_default zero_params zero_params = Inl TypeError"
  using default_module_constructor_raises [of zero_params zero_params] .

text \<open>
  C8. For any module with the declared layer sizes, and the same random draws,
  \<^verbatim>\<open>forward\<close> returns exactly the pair \<open>(x_hat, y_hat)\<close> that \<^verbatim>\<open>_common_flow\<close> computes for
  the same input, and raises the same error when \<^verbatim>\<open>_common_flow\<close> raises one.
\<close>

theorem forward_equals_common_flow_path:
  assumes "PodModule_inv m"
  shows "forward m rnd x =
         map_sum id (\<lambda>(xv, x_hat, y_hat, loss). (x_hat, y_hat)) (common_flow_locals m rnd (x, y))"
  using assms by (rule forward_common_flow_locals)

theorem forward_equals_common_flow_path_witness:
  "PodModule_inv zero_module \<and>
   forward zero_module keep_all (zeros [2, 28, 28]) =
     map_sum id (\<lambda>(xv, x_hat, y_hat, loss). (x_hat, y_hat))
       (common_flow_locals zero_module keep_all (zeros [2, 28, 28], [3 :: nat, 7])) \<and>
   forward zero_module keep_all (zeros [2, 28, 28]) =
     Inr (zero_mat 2 784, log_softmax (zero_mat 2 784))"
  using forward_equals_common_flow_path [OF zero_module_inv, of keep_all "zeros [2, 28, 28]" "[3 :: nat, 7]"]
    zero_module_inv zero_module_forward [of keep_all]
  by blast

text \<open>
  C9. Whenever a validation or test step gets as far as recording, it appends the
  structural similarity under the stage's prefix followed by \<open>_ssim \<close>, which ends in a
  space, and the accuracy and the loss under keys that contain no space.
\<close>

theorem ssim_key_has_trailing_space:
  assumes "validation_step lib m rnd batch lg = Inr (r, lg') \<and> stage = ''val'' \<or>
           test_step lib m rnd batch lg = Inr (r, lg') \<and> stage = ''test''"
  shows "\<exists>ssim acc loss.
           lg' = lg @ [(stage @ ''_ssim '', ssim), (stage @ ''_acc'', acc), (stage @ ''_loss'', loss)] \<and>
           last (stage @ ''_ssim '') = CHR '' '' \<and>
           CHR '' '' \<notin> set (stage @ ''_acc'') \<and> CHR '' '' \<notin> set (stage @ ''_loss'')"
proof -
  from assms have st: "stage = ''val'' \<or> stage = ''test''" by auto
  from assms obtain r0 where "common_flow lib m rnd batch stage lg = Inr (r0, lg')"
    by (auto simp: validation_step_def test_step_def split: sum.splits prod.splits)
  from common_flow_eval_Inr [OF this st] st show ?thesis by auto
qed

theorem ssim_key_has_trailing_space_witness:
  "validation_step accepting_metrics zero_module keep_all (zeros [2, 28, 28], [3, 7]) [] =
     Inr (None, [(''val_ssim '', 1), (''val_acc'', 1), (''val_loss'', 0)]) \<and>
   (\<exists>ssim acc loss.
      [(''val_ssim '', 1 :: real), (''val_acc'', 1), (''val_loss'', 0)] =
        [] @ [(''val'' @ ''_ssim '', ssim), (''val'' @ ''_acc'', acc), (''val'' @ ''_loss'', loss)] \<and>
      last (''val'' @ ''_ssim '') = CHR '' '' \<and>
      CHR '' '' \<notin> set (''val'' @ ''_acc'') \<and> CHR '' '' \<notin> set (''val'' @ ''_loss''))"
proof -
  have v: "validation_step accepting_metrics zero_module keep_all (zeros [2, 28, 28], [3, 7]) [] =
     Inr (None, [(''val_ssim '', 1), (''val_acc'', 1), (''val_loss'', 0)])"
    by (simp add: validation_step_def zero_module_eval_flow)
  from v have h:
    "validation_step accepting_metrics zero_module keep_all (zeros [2, 28, 28], [3, 7]) [] =
       Inr (None, [(''val_ssim '', 1), (''val_acc'', 1), (''val_loss'', 0)]) \<and> ''val'' = ''val'' \<or>
     test_step accepting_metrics zero_module keep_all (zeros [2, 28, 28], [3, 7]) [] =
       Inr (None, [(''val_ssim '', 1), (''val_acc'', 1), (''val_loss'', 0)]) \<and> ''val'' = ''test''"
    by simp
  show ?thesis using v ssim_key_has_trailing_space [OF h] by (rule conjI)
qed

text \<open>
  C10, as amended. For any module with the declared layer sizes and an input of shape
  (N, d1, ..., dk) with \<open>N \<ge> 1\<close>, the forward pass succeeds exactly when the strides of
  the input admit the view to (N, d1 * ... * dk) and that product is 784. Every contiguous
  input admits the view, so for contiguous inputs it succeeds exactly when the product is
  784. When the view succeeds it flattens every sample to one row of \<open>d1 * ... * dk\<close>
  scalars, and the encoder's first linear layer accepts the flattened batch exactly when
  the product is 784.
\<close>

theorem forward_succeeds_iff_784:
  assumes "PodModule_inv m" and "shape x = N # ds" and "0 < N"
  shows "((\<exists>out. forward m rnd x = Inr out) \<longleftrightarrow>
            compute_stride (shape x) (strides x) [N, prod_list ds] \<noteq> None \<and> prod_list ds = 784) \<and>
         (strides x = contiguous_strides (shape x) \<longrightarrow>
            ((\<exists>out. forward m rnd x = Inr out) \<longleftrightarrow> prod_list ds = 784)) \<and>
         (view_infer x N = Inr xv \<longrightarrow>
            ncols xv = prod_list ds \<and> length (rows xv) = N \<and> wf_mat xv \<and>
            ((\<exists>h. Linear_forward (enc_linear1 (encoder m)) xv = Inr h) \<longleftrightarrow> prod_list ds = 784))"
proof -
  have "in_features (enc_linear1 (encoder m)) = 784"
    using assms(1) by (simp add: PodModule_inv_def Encoder_inv_def)
  then have "view_infer x N = Inr xv \<longrightarrow>
            ncols xv = prod_list ds \<and> length (rows xv) = N \<and> wf_mat xv \<and>
            ((\<exists>h. Linear_forward (enc_linear1 (encoder m)) xv = Inr h) \<longleftrightarrow> prod_list ds = 784)"
    using view_infer_Inr [of x N xv ds] assms(2) by (auto simp: Linear_forward_Inr_iff)
  moreover have "strides x = contiguous_strides (shape x) \<longrightarrow>
      compute_stride (shape x) (strides x) [N, prod_list ds] \<noteq> None"
    using contiguous_viewable [OF assms(3), of ds] assms(2) by simp
  ultimately show ?thesis
    using forward_Inr_iff [OF assms(1,2), of rnd] view_infer_Inr_iff [OF assms(2,3)]
    by auto
qed

theorem forward_succeeds_iff_784_witness:
  "PodModule_inv zero_module \<and> shape (zeros [2, 28, 28]) = 2 # [28, 28] \<and> (0 :: nat) < 2 \<and>
   view_infer (zeros [2, 28, 28]) 2 = Inr (zero_mat 2 784) \<and>
   compute_stride (shape (zeros [2, 28, 28])) (strides (zeros [2, 28, 28])) [2, prod_list [28, 28]]
     \<noteq> None \<and>
   strides (zeros [2, 28, 28]) = contiguous_strides (shape (zeros [2, 28, 28])) \<and>
   prod_list [28, 28] = (784 :: nat) \<and>
   (\<exists>out. forward zero_module keep_all (zeros [2, 28, 28]) = Inr out) \<and>
   (\<exists>h. Linear_forward (enc_linear1 (encoder zero_module)) (zero_mat 2 784) = Inr h)"
proof -
  have s: "shape (zeros [2, 28, 28]) = 2 # [28, 28]" by (simp add: zeros_def)
  have n: "(0 :: nat) < 2" by simp
  have p: "prod_list [28, 28] = (784 :: nat)" by simp
  have c: "compute_stride (shape (zeros [2, 28, 28])) (strides (zeros [2, 28, 28]))
      [2, prod_list [28, 28]] \<noteq> None"
    using view_infer_Inr_iff [OF s n] zeros_view by blast
  have k: "strides (zeros [2, 28, 28]) = contiguous_strides (shape (zeros [2, 28, 28]))"
    by (simp add: zeros_def)
  from forward_succeeds_iff_784 [OF zero_module_inv s n, of keep_all "zero_mat 2 784"]
    zero_module_inv s n p c k zeros_view
  show ?thesis by blast
qed

text \<open>
  C10 as stated fails on two inputs whose samples have 784 scalars: the empty batch of
  shape (0, 784), where the view cannot infer the second dimension, and a batch of shape
  (2, 28, 28) with its last two dimensions transposed in memory, whose strides admit no
  view to (2, 784).
\<close>

theorem forward_view_counterexample:
  "PodModule_inv zero_module \<and>
   shape (zeros [0, 784]) = [0, 784] \<and> wf_tensor (zeros [0, 784]) \<and>
   prod_list [784] = (784 :: nat) \<and>
   forward zero_module keep_all (zeros [0, 784]) = Inl AmbiguousShape \<and>
   shape transposed_batch = [2, 28, 28] \<and> wf_tensor transposed_batch \<and>
   prod_list [28, 28] = (784 :: nat) \<and>
   forward zero_module keep_all transposed_batch = Inl IncompatibleView"
proof -
  have s0: "shape (zeros [0, 784]) = 0 # [784]" by (simp add: zeros_def)
  have s1: "shape transposed_batch = 2 # [28, 28]" by (simp add: transposed_batch_def)
  have "forward zero_module keep_all (zeros [0, 784]) = Inl AmbiguousShape"
    unfolding forward_view [OF s0] empty_batch_view by simp
  moreover have "forward zero_module keep_all transposed_batch = Inl IncompatibleView"
    unfolding forward_view [OF s1] transposed_batch_view by simp
  ultimately show ?thesis
    by (simp add: zero_module_inv zeros_def transposed_batch_def wf_tensor_def)
qed

end
